theory Spec2Isabelle
  imports Main "HOL-Library.Word"
begin

unbundle bit_operations_syntax

section \<open>Bytes, files and failures\<close>

text \<open>
  The toolkit of \<^verbatim>\<open>encryptor.py\<close> and \<^verbatim>\<open>decryptor.py\<close> works on Python
  \<^verbatim>\<open>bytes\<close> objects read from and written to files. A byte is an 8-bit word, a
  \<^verbatim>\<open>bytes\<close> object a list of them, a path a string, and the file system a partial map
  from paths to file contents (\<^verbatim>\<open>Path(p)\<close> is kept as the string \<open>p\<close>; directories,
  permissions and I/O errors during a read or write are outside the model).
  Python integers are unbounded: lengths and the algorithm byte are natural numbers.
\<close>

type_synonym byte = "8 word"
type_synonym bytes = "byte list"
type_synonym path = string
type_synonym filesystem = "path \<rightharpoonup> bytes"

text \<open>
  Every \<^verbatim>\<open>raise\<close> of the two modules, and every exception that can reach their callers
  from the standard library or from a primitive library, is a value of \<open>error\<close>. The
  source raises \<^verbatim>\<open>ValueError\<close> with different messages; one constructor stands for each
  message:
  \<^item> \<open>FileNotFoundError\<close>: the explicit \<^verbatim>\<open>raise FileNotFoundError\<close> after \<^verbatim>\<open>exists()\<close>;
  \<^item> \<open>OSError\<close>: \<^verbatim>\<open>open(path, 'rb')\<close> of a key file that does not exist;
  \<^item> \<open>ImportError\<close>: no primitive library can be imported;
  \<^item> \<open>BadMagic\<close>: \<^verbatim>\<open>ValueError("Invalid file format: expected PQC magic number ...")\<close>;
  \<^item> \<open>StructError\<close>: \<^verbatim>\<open>struct.error\<close> from \<^verbatim>\<open>struct.pack\<close> or \<^verbatim>\<open>struct.unpack\<close>;
  \<^item> \<open>PrimitiveFailure\<close>: \<^verbatim>\<open>ValueError("quantcrypt ... failed: ...")\<close>;
  \<^item> \<open>LibraryException\<close>: an exception of a library that the module does not catch;
  \<^item> \<open>SignatureInvalid\<close>: \<^verbatim>\<open>ValueError("[ERROR] Signature verification failed! ...")\<close>;
  \<^item> \<open>MissingSignerKey\<close>: \<^verbatim>\<open>ValueError("... required but no signer public key provided.")\<close>;
  \<^item> \<open>SignatureRequired\<close>: \<^verbatim>\<open>ValueError("... required but the encrypted file is not signed.")\<close>;
  \<^item> \<open>DecryptionFailed\<close>: \<^verbatim>\<open>ValueError("Decryption failed: ...")\<close>.
\<close>

datatype error =
    FileNotFoundError
  | OSError
  | ImportError
  | BadMagic
  | StructError
  | PrimitiveFailure
  | LibraryException
  | SignatureInvalid
  | MissingSignerKey
  | SignatureRequired
  | DecryptionFailed

text \<open>A call into a library either returns a value or raises.\<close>

datatype 'a outcome = Returned 'a | Raised

section \<open>File format constants\<close>

definition PQC_FILE_MAGIC :: bytes where
  "PQC_FILE_MAGIC = [0x50, 0x51, 0x43, 0x31]"

definition ALGORITHM_KEM_MLKEM768 :: nat where
  "ALGORITHM_KEM_MLKEM768 = 0x01"

definition ALGORITHM_DSS_MLDSA87 :: nat where
  "ALGORITHM_DSS_MLDSA87 = 0x02"

definition ALGORITHM_SYM_AES256GCM :: nat where
  "ALGORITHM_SYM_AES256GCM = 0x03"

section \<open>The \<^verbatim>\<open>struct\<close> formats the modules use\<close>

text \<open>
  \<^verbatim>\<open>struct.pack('>B', n)\<close> and \<^verbatim>\<open>struct.pack('>I', n)\<close> raise \<^verbatim>\<open>struct.error\<close> when
  \<open>n\<close> does not fit; \<^verbatim>\<open>struct.unpack\<close> raises it when the buffer has not exactly the
  size of the format. \<^verbatim>\<open>'12s'\<close> truncates a longer argument and pads a shorter one with
  zero bytes. With \<^verbatim>\<open>'>'\<close> there is no alignment.
\<close>

definition pack_B :: "nat \<Rightarrow> error + bytes" where
  "pack_B n = (if n < 256 then Inr [of_nat n] else Inl StructError)"

definition be32 :: "nat \<Rightarrow> bytes" where
  "be32 n = [of_nat (n div 2 ^ 24), of_nat (n div 2 ^ 16), of_nat (n div 2 ^ 8), of_nat n]"

definition pack_I :: "nat \<Rightarrow> error + bytes" where
  "pack_I n = (if n < 2 ^ 32 then Inr (be32 n) else Inl StructError)"

definition pack_12s :: "bytes \<Rightarrow> bytes" where
  "pack_12s b = take 12 b @ replicate (12 - length b) 0"

definition pack_BII12s :: "nat \<Rightarrow> nat \<Rightarrow> nat \<Rightarrow> bytes \<Rightarrow> error + bytes" where
  "pack_BII12s f a b n =
     (case pack_B f of Inl e \<Rightarrow> Inl e | Inr x \<Rightarrow>
      case pack_I a of Inl e \<Rightarrow> Inl e | Inr y \<Rightarrow>
      case pack_I b of Inl e \<Rightarrow> Inl e | Inr z \<Rightarrow>
      Inr (x @ y @ z @ pack_12s n))"

definition unpack_B :: "bytes \<Rightarrow> error + nat" where
  "unpack_B bs = (case bs of [b] \<Rightarrow> Inr (unat b) | _ \<Rightarrow> Inl StructError)"

definition unpack_I :: "bytes \<Rightarrow> error + nat" where
  "unpack_I bs =
     (case bs of
        [a, b, c, d] \<Rightarrow> Inr (unat a * 2 ^ 24 + unat b * 2 ^ 16 + unat c * 2 ^ 8 + unat d)
      | _ \<Rightarrow> Inl StructError)"

section \<open>The environment: primitive libraries, AEAD, entropy, pathlib\<close>

text \<open>
  \<^verbatim>\<open>_get_pqc_library\<close> tries \<^verbatim>\<open>quantcrypt\<close>, then \<^verbatim>\<open>pqcrypto\<close>, then
  \<^verbatim>\<open>kyber\<close>/\<^verbatim>\<open>dilithium\<close>, and raises \<^verbatim>\<open>ImportError\<close> when none is installed.
  Which one is found depends on the installation, so it is a field of the environment.
\<close>

datatype lib_type = quantcrypt | pqcrypto | kyber_dilithium

text \<open>
  The post-quantum primitives, HKDF and AES-GCM of the \<^verbatim>\<open>cryptography\<close> package,
  \<^verbatim>\<open>os.urandom\<close> and \<^verbatim>\<open>pathlib\<close> are not code of this repository. They are fields
  of a record; each field is the behaviour of the library during one run (a randomised
  primitive is called at most once per run).
  \<^item> \<open>kem_encaps pk\<close> returns the KEM ciphertext and the shared secret;
  \<^item> \<open>dss_verify pk msg sig\<close> is the library's \<^verbatim>\<open>verify\<close>, which returns a truth value or raises;
  \<^item> \<open>hkdf_derive length salt info ikm\<close> is \<^verbatim>\<open>HKDF(SHA256, length, salt, info).derive(ikm)\<close>;
  \<^item> \<open>aesgcm_new key\<close> tells whether the constructor \<^verbatim>\<open>AESGCM(key)\<close> accepts the key;
  \<^item> \<open>aesgcm_encrypt key nonce data\<close> and \<open>aesgcm_decrypt key nonce data\<close> are the two
    methods with associated data \<^verbatim>\<open>None\<close>;
  \<^item> \<open>entropy\<close> is the stream \<^verbatim>\<open>os.urandom\<close> reads;
  \<^item> \<open>path_suffix\<close>, \<open>path_stem\<close>, \<open>path_with_suffix\<close> and \<open>path_parent_join\<close> are
    \<^verbatim>\<open>Path.suffix\<close>, \<^verbatim>\<open>Path.stem\<close>, \<^verbatim>\<open>Path.with_suffix\<close> and \<^verbatim>\<open>p.parent / name\<close>.
\<close>

record env =
  pqc_library :: "lib_type option"
  kem_encaps :: "bytes \<Rightarrow> (bytes \<times> bytes) outcome"
  kem_decaps :: "bytes \<Rightarrow> bytes \<Rightarrow> bytes outcome"
  dss_sign :: "bytes \<Rightarrow> bytes \<Rightarrow> bytes outcome"
  dss_verify :: "bytes \<Rightarrow> bytes \<Rightarrow> bytes \<Rightarrow> bool outcome"
  hkdf_derive :: "nat \<Rightarrow> bytes option \<Rightarrow> bytes \<Rightarrow> bytes \<Rightarrow> bytes"
  aesgcm_new :: "bytes \<Rightarrow> bool"
  aesgcm_encrypt :: "bytes \<Rightarrow> bytes \<Rightarrow> bytes \<Rightarrow> bytes outcome"
  aesgcm_decrypt :: "bytes \<Rightarrow> bytes \<Rightarrow> bytes \<Rightarrow> bytes outcome"
  entropy :: "nat \<Rightarrow> byte"
  path_suffix :: "path \<Rightarrow> string"
  path_stem :: "path \<Rightarrow> string"
  path_with_suffix :: "path \<Rightarrow> string \<Rightarrow> path"
  path_parent_join :: "path \<Rightarrow> string \<Rightarrow> path"

definition os_urandom :: "env \<Rightarrow> nat \<Rightarrow> bytes" where
  "os_urandom E n = map (entropy E) [0..<n]"

definition info_pqc_aes_key :: bytes where
  "info_pqc_aes_key = [0x70, 0x71, 0x63, 0x2D, 0x61, 0x65, 0x73, 0x2D, 0x6B, 0x65, 0x79]"

section \<open>The primitive adapter\<close>

text \<open>
  The session key is derived inside \<^verbatim>\<open>_encapsulate_key\<close> and \<^verbatim>\<open>_decapsulate_key\<close>,
  once per library branch. The \<^verbatim>\<open>quantcrypt\<close> branch catches every exception of the
  library and raises \<^verbatim>\<open>ValueError\<close>; the other two branches let it pass. The final
  \<^verbatim>\<open>else\<close> (unsupported library type) cannot be reached. (An Isabelle name cannot
  start with an underscore: the leading underscore of the source's names is dropped.)
\<close>

definition encapsulate_key :: "env \<Rightarrow> bytes \<Rightarrow> error + (bytes \<times> bytes)" where
  "encapsulate_key E public_kem_key =
     (case pqc_library E of
        None \<Rightarrow> Inl ImportError
      | Some quantcrypt \<Rightarrow>
          (case kem_encaps E public_kem_key of
             Raised \<Rightarrow> Inl PrimitiveFailure
           | Returned (ciphertext, shared_secret) \<Rightarrow>
               if length shared_secret \<ge> 32
               then Inr (ciphertext, take 32 shared_secret)
               else Inr (ciphertext, hkdf_derive E 32 None info_pqc_aes_key shared_secret))
      | Some pqcrypto \<Rightarrow>
          (case kem_encaps E public_kem_key of
             Raised \<Rightarrow> Inl LibraryException
           | Returned (ciphertext, shared_secret) \<Rightarrow>
               Inr (ciphertext,
                    if length shared_secret \<ge> 32 then take 32 shared_secret
                    else shared_secret @ replicate (32 - length shared_secret) 0))
      | Some kyber_dilithium \<Rightarrow>
          (case kem_encaps E public_kem_key of
             Raised \<Rightarrow> Inl LibraryException
           | Returned (ciphertext, shared_secret) \<Rightarrow>
               Inr (ciphertext,
                    if length shared_secret \<ge> 32 then take 32 shared_secret
                    else shared_secret @ replicate (32 - length shared_secret) 0)))"

definition decapsulate_key :: "env \<Rightarrow> bytes \<Rightarrow> bytes \<Rightarrow> error + bytes" where
  "decapsulate_key E private_kem_key kem_ciphertext =
     (case pqc_library E of
        None \<Rightarrow> Inl ImportError
      | Some quantcrypt \<Rightarrow>
          (case kem_decaps E private_kem_key kem_ciphertext of
             Raised \<Rightarrow> Inl PrimitiveFailure
           | Returned shared_secret \<Rightarrow>
               if length shared_secret \<ge> 32
               then Inr (take 32 shared_secret)
               else Inr (hkdf_derive E 32 None info_pqc_aes_key shared_secret))
      | Some pqcrypto \<Rightarrow>
          (case kem_decaps E private_kem_key kem_ciphertext of
             Raised \<Rightarrow> Inl LibraryException
           | Returned shared_secret \<Rightarrow>
               Inr (if length shared_secret \<ge> 32 then take 32 shared_secret
                    else shared_secret @ replicate (32 - length shared_secret) 0))
      | Some kyber_dilithium \<Rightarrow>
          (case kem_decaps E private_kem_key kem_ciphertext of
             Raised \<Rightarrow> Inl LibraryException
           | Returned shared_secret \<Rightarrow>
               Inr (if length shared_secret \<ge> 32 then take 32 shared_secret
                    else shared_secret @ replicate (32 - length shared_secret) 0)))"

definition sign_data :: "env \<Rightarrow> bytes \<Rightarrow> bytes \<Rightarrow> error + bytes" where
  "sign_data E private_dss_key data =
     (case pqc_library E of
        None \<Rightarrow> Inl ImportError
      | Some quantcrypt \<Rightarrow>
          (case dss_sign E private_dss_key data of
             Raised \<Rightarrow> Inl PrimitiveFailure
           | Returned s \<Rightarrow> Inr s)
      | Some pqcrypto \<Rightarrow>
          (case dss_sign E private_dss_key data of
             Raised \<Rightarrow> Inl LibraryException
           | Returned s \<Rightarrow> Inr s)
      | Some kyber_dilithium \<Rightarrow>
          (case dss_sign E private_dss_key data of
             Raised \<Rightarrow> Inl LibraryException
           | Returned s \<Rightarrow> Inr s))"

text \<open>
  \<^verbatim>\<open>_verify_signature\<close>: the \<^verbatim>\<open>quantcrypt\<close> branch returns what the library returns
  and turns every exception into \<^verbatim>\<open>ValueError\<close>; the \<^verbatim>\<open>pqcrypto\<close> branch ignores the
  returned value, answers \<^verbatim>\<open>True\<close> when the call returns and \<^verbatim>\<open>False\<close> when it
  raises; the third branch passes value and exception through.
\<close>

definition verify_signature :: "env \<Rightarrow> bytes \<Rightarrow> bytes \<Rightarrow> bytes \<Rightarrow> error + bool" where
  "verify_signature E public_dss_key data signature =
     (case pqc_library E of
        None \<Rightarrow> Inl ImportError
      | Some quantcrypt \<Rightarrow>
          (case dss_verify E public_dss_key data signature of
             Raised \<Rightarrow> Inl PrimitiveFailure
           | Returned b \<Rightarrow> Inr b)
      | Some pqcrypto \<Rightarrow>
          (case dss_verify E public_dss_key data signature of
             Raised \<Rightarrow> Inr False
           | Returned b \<Rightarrow> Inr True)
      | Some kyber_dilithium \<Rightarrow>
          (case dss_verify E public_dss_key data signature of
             Raised \<Rightarrow> Inl LibraryException
           | Returned b \<Rightarrow> Inr b))"

section \<open>The state the two operations run in\<close>

text \<open>
  An operation reads and writes files and calls the adapter and the AEAD. The world
  holds the file system and, in call order, one event for each call of
  \<^verbatim>\<open>_encapsulate_key\<close>, \<^verbatim>\<open>_decapsulate_key\<close>, \<^verbatim>\<open>_sign_data\<close>,
  \<^verbatim>\<open>_verify_signature\<close>, \<^verbatim>\<open>aesgcm.encrypt\<close> and \<^verbatim>\<open>aesgcm.decrypt\<close>, with
  the arguments of the call. Messages printed to the console are not modelled.
\<close>

datatype event =
    EvEncaps bytes
  | EvDecaps bytes bytes
  | EvSign bytes bytes
  | EvVerify bytes bytes bytes
  | EvAeadEncrypt bytes bytes bytes
  | EvAeadDecrypt bytes bytes bytes

record world =
  files :: filesystem
  trace :: "event list"

definition log_event :: "event \<Rightarrow> world \<Rightarrow> world" where
  "log_event ev w = w\<lparr>trace := trace w @ [ev]\<rparr>"

definition write_file :: "path \<Rightarrow> bytes \<Rightarrow> world \<Rightarrow> world" where
  "write_file p b w = w\<lparr>files := (files w)(p \<mapsto> b)\<rparr>"

text \<open>
  \<^verbatim>\<open>if path:\<close> on an optional path is false for \<^verbatim>\<open>None\<close> and for the empty string;
  \<^verbatim>\<open>if signature:\<close> is false for \<^verbatim>\<open>None\<close> and for empty bytes.
\<close>

definition truthy :: "'a list option \<Rightarrow> bool" where
  "truthy x = (case x of None \<Rightarrow> False | Some s \<Rightarrow> s \<noteq> [])"

section \<open>Decoding a container\<close>

text \<open>
  \<^verbatim>\<open>f.read(n)\<close> returns the next \<open>n\<close> bytes of the file, or all the bytes left when
  fewer than \<open>n\<close> are left; \<open>read_n\<close> returns them with the rest of the file.
\<close>

definition read_n :: "nat \<Rightarrow> bytes \<Rightarrow> bytes \<times> bytes" where
  "read_n n s = (take n s, drop n s)"

record container =
  c_algorithms_byte :: nat
  c_kem_ct_len :: nat
  c_gcm_tag_len :: nat
  c_sig_len :: nat
  c_nonce :: bytes
  c_kem_ciphertext :: bytes
  c_gcm_tag :: bytes
  c_signature :: "bytes option"
  c_aes_ciphertext :: bytes

text \<open>
  The \<^verbatim>\<open>with open(encrypted_path, 'rb')\<close> block of \<^verbatim>\<open>decrypt_file_hybrid\<close>, on the
  content of the file: the magic number is compared, the four header fields are
  unpacked, and the nonce, the KEM ciphertext, the tag, the signature (when
  \<^verbatim>\<open>sig_len > 0\<close>) and the rest are read. Nothing else is checked.
\<close>

definition parse_container :: "bytes \<Rightarrow> error + container" where
  "parse_container data =
     (let (magic, r0) = read_n 4 data in
      if magic \<noteq> PQC_FILE_MAGIC then Inl BadMagic else
      let (b1, r1) = read_n 1 r0 in
      case unpack_B b1 of Inl e \<Rightarrow> Inl e | Inr algorithms_byte \<Rightarrow>
      let (b2, r2) = read_n 4 r1 in
      case unpack_I b2 of Inl e \<Rightarrow> Inl e | Inr kem_ct_len \<Rightarrow>
      let (b3, r3) = read_n 4 r2 in
      case unpack_I b3 of Inl e \<Rightarrow> Inl e | Inr gcm_tag_len \<Rightarrow>
      let (b4, r4) = read_n 4 r3 in
      case unpack_I b4 of Inl e \<Rightarrow> Inl e | Inr sig_len \<Rightarrow>
      let (nonce, r5) = read_n 12 r4;
          (kem_ciphertext, r6) = read_n kem_ct_len r5;
          (gcm_tag, r7) = read_n gcm_tag_len r6;
          (signature, r8) =
             (if sig_len > 0 then (Some (fst (read_n sig_len r7)), snd (read_n sig_len r7))
              else (None, r7))
      in Inr \<lparr>c_algorithms_byte = algorithms_byte, c_kem_ct_len = kem_ct_len,
               c_gcm_tag_len = gcm_tag_len, c_sig_len = sig_len, c_nonce = nonce,
               c_kem_ciphertext = kem_ciphertext, c_gcm_tag = gcm_tag,
               c_signature = signature, c_aes_ciphertext = r8\<rparr>)"

section \<open>The signed payload\<close>

text \<open>
  Both modules build the payload with the same expression:
  \<^verbatim>\<open>struct.pack('>BII12s', algorithms_byte, kem_ct_len, tag_len, nonce) + kem_ciphertext + gcm_tag + aes_ciphertext\<close>.
  The encryptor passes \<^verbatim>\<open>len(kem_ciphertext)\<close> and \<^verbatim>\<open>len(gcm_tag)\<close>, the decryptor the
  two lengths it parsed from the header.
\<close>

definition signature_payload ::
  "nat \<Rightarrow> nat \<Rightarrow> nat \<Rightarrow> bytes \<Rightarrow> bytes \<Rightarrow> bytes \<Rightarrow> bytes \<Rightarrow> error + bytes" where
  "signature_payload algorithms_byte kem_ct_len tag_len nonce kem_ciphertext gcm_tag aes_ciphertext =
     (case pack_BII12s algorithms_byte kem_ct_len tag_len nonce of
        Inl e \<Rightarrow> Inl e
      | Inr header \<Rightarrow> Inr (header @ kem_ciphertext @ gcm_tag @ aes_ciphertext))"

section \<open>Decryption\<close>

text \<open>
  The block \<^verbatim>\<open>PQC PHASE (DSS - Optional)\<close> of \<^verbatim>\<open>decrypt_file_hybrid\<close>: the result
  is the value of \<^verbatim>\<open>signature_verified\<close> (\<^verbatim>\<open>None\<close>, \<^verbatim>\<open>False\<close> or \<^verbatim>\<open>True\<close>) or
  the error raised.
\<close>

definition signature_phase ::
  "env \<Rightarrow> world \<Rightarrow> container \<Rightarrow> path option \<Rightarrow> bool \<Rightarrow> (error + bool option) \<times> world" where
  "signature_phase E w c signer_public_dss_key_path require_signature =
     (case c_signature c of
        Some signature \<Rightarrow>
          (case signature_payload (c_algorithms_byte c) (c_kem_ct_len c) (c_gcm_tag_len c)
                  (c_nonce c) (c_kem_ciphertext c) (c_gcm_tag c) (c_aes_ciphertext c) of
             Inl e \<Rightarrow> (Inl e, w)
           | Inr payload \<Rightarrow>
               if truthy signer_public_dss_key_path then
                 (case files w (the signer_public_dss_key_path) of
                    None \<Rightarrow> (Inl OSError, w)
                  | Some signer_public_dss_key \<Rightarrow>
                      (let w1 = log_event (EvVerify signer_public_dss_key payload signature) w in
                       case verify_signature E signer_public_dss_key payload signature of
                         Inl e \<Rightarrow> (Inl e, w1)
                       | Inr ok \<Rightarrow>
                           if \<not> ok then (Inl SignatureInvalid, w1)
                           else (Inr (Some True), w1)))
               else if require_signature then (Inl MissingSignerKey, w)
               else (Inr (Some False), w))
      | None \<Rightarrow>
          if require_signature then (Inl SignatureRequired, w) else (Inr None, w))"

text \<open>
  \<^verbatim>\<open>stem.rsplit('.', 1)\<close> for a stem that contains a dot: what is before the last dot
  and what is after it.
\<close>

definition rsplit1_dot :: "string \<Rightarrow> string \<times> string" where
  "rsplit1_dot s =
     (rev (drop 1 (dropWhile (\<lambda>ch. ch \<noteq> CHR ''.'') (rev s))),
      rev (takeWhile (\<lambda>ch. ch \<noteq> CHR ''.'') (rev s)))"

definition output_name :: "env \<Rightarrow> path \<Rightarrow> string" where
  "output_name E encrypted_path =
     (if path_suffix E encrypted_path = ''.pqc'' then
        (let stem = path_stem E encrypted_path in
         if CHR ''.'' \<in> set stem then
           (let parts = rsplit1_dot stem;
                original_ext = ''.'' @ snd parts
            in fst parts @ ''-decrypted'' @ original_ext)
         else stem @ ''-decrypted'')
      else path_stem E encrypted_path @ ''-decrypted'')"

record metadata =
  signature_present :: bool
  signature_verified :: "bool option"
  md_require_signature :: bool

text \<open>
  The block \<^verbatim>\<open>SYMMETRIC PHASE\<close> and the writing of the output file. The constructor
  \<^verbatim>\<open>AESGCM(aes_key)\<close> is outside the \<^verbatim>\<open>try\<close>; only \<^verbatim>\<open>aesgcm.decrypt\<close> is inside.
\<close>

definition symmetric_phase ::
  "env \<Rightarrow> world \<Rightarrow> path \<Rightarrow> container \<Rightarrow> bytes \<Rightarrow> bool option \<Rightarrow> bool \<Rightarrow> bool
     \<Rightarrow> (error + path \<times> metadata option) \<times> world" where
  "symmetric_phase E w encrypted_filepath c aes_key sig_verified require_signature return_metadata =
     (if \<not> aesgcm_new E aes_key then (Inl LibraryException, w) else
      let ciphertext_with_tag = c_aes_ciphertext c @ c_gcm_tag c;
          w1 = log_event (EvAeadDecrypt aes_key (c_nonce c) ciphertext_with_tag) w
      in case aesgcm_decrypt E aes_key (c_nonce c) ciphertext_with_tag of
           Raised \<Rightarrow> (Inl DecryptionFailed, w1)
         | Returned plaintext \<Rightarrow>
             (let output_path = path_parent_join E encrypted_filepath (output_name E encrypted_filepath);
                  w2 = write_file output_path plaintext w1
              in (Inr (output_path,
                       if return_metadata
                       then Some \<lparr>signature_present = (c_signature c \<noteq> None),
                                  signature_verified = sig_verified,
                                  md_require_signature = require_signature\<rparr>
                       else None),
                  w2)))"

definition decrypt_file_hybrid ::
  "env \<Rightarrow> world \<Rightarrow> path \<Rightarrow> path \<Rightarrow> path option \<Rightarrow> bool \<Rightarrow> bool
     \<Rightarrow> (error + path \<times> metadata option) \<times> world" where
  "decrypt_file_hybrid E w encrypted_filepath recipient_private_kem_key_path
       signer_public_dss_key_path require_signature return_metadata =
     (case files w encrypted_filepath of
        None \<Rightarrow> (Inl FileNotFoundError, w)
      | Some data \<Rightarrow>
     (case parse_container data of
        Inl e \<Rightarrow> (Inl e, w)
      | Inr c \<Rightarrow>
     (case files w recipient_private_kem_key_path of
        None \<Rightarrow> (Inl OSError, w)
      | Some recipient_private_kem_key \<Rightarrow>
     (let w1 = log_event (EvDecaps recipient_private_kem_key (c_kem_ciphertext c)) w in
      case decapsulate_key E recipient_private_kem_key (c_kem_ciphertext c) of
        Inl e \<Rightarrow> (Inl e, w1)
      | Inr aes_key \<Rightarrow>
     (case signature_phase E w1 c signer_public_dss_key_path require_signature of
        (Inl e, w2) \<Rightarrow> (Inl e, w2)
      | (Inr sig_verified, w2) \<Rightarrow>
          symmetric_phase E w2 encrypted_filepath c aes_key sig_verified
            require_signature return_metadata)))))"

section \<open>Encryption\<close>

text \<open>
  The writes inside \<^verbatim>\<open>with open(output_path, 'wb')\<close> happen one after the other; a
  \<^verbatim>\<open>struct.pack\<close> that raises ends the block, and the file keeps what was written
  before. \<open>write_all\<close> appends the chunks up to the first one that raises.
\<close>

fun write_all :: "(error + bytes) list \<Rightarrow> bytes \<Rightarrow> error option \<times> bytes" where
  "write_all [] acc = (None, acc)"
| "write_all (Inl e # rest) acc = (Some e, acc)"
| "write_all (Inr b # rest) acc = write_all rest (acc @ b)"

text \<open>
  The block \<^verbatim>\<open>PQC PHASE (DSS - Optional)\<close> of \<^verbatim>\<open>encrypt_file_hybrid\<close>: it returns
  the algorithm byte and the signature.
\<close>

definition signing_phase ::
  "env \<Rightarrow> world \<Rightarrow> path option \<Rightarrow> nat \<Rightarrow> bytes \<Rightarrow> bytes \<Rightarrow> bytes \<Rightarrow> bytes
     \<Rightarrow> (error + nat \<times> bytes option) \<times> world" where
  "signing_phase E w signer_private_dss_key_path algorithms_byte nonce kem_ciphertext gcm_tag
       aes_ciphertext =
     (if truthy signer_private_dss_key_path then
        (case files w (the signer_private_dss_key_path) of
           None \<Rightarrow> (Inl OSError, w)
         | Some signer_private_dss_key \<Rightarrow>
             (let algorithms_byte' = algorithms_byte OR ALGORITHM_DSS_MLDSA87 in
              case signature_payload algorithms_byte' (length kem_ciphertext) (length gcm_tag)
                     nonce kem_ciphertext gcm_tag aes_ciphertext of
                Inl e \<Rightarrow> (Inl e, w)
              | Inr payload \<Rightarrow>
                  (let w1 = log_event (EvSign signer_private_dss_key payload) w in
                   case sign_data E signer_private_dss_key payload of
                     Inl e \<Rightarrow> (Inl e, w1)
                   | Inr signature \<Rightarrow> (Inr (algorithms_byte', Some signature), w1))))
      else (Inr (algorithms_byte, None), w))"

definition container_chunks ::
  "nat \<Rightarrow> bytes \<Rightarrow> bytes \<Rightarrow> bytes \<Rightarrow> bytes option \<Rightarrow> bytes \<Rightarrow> (error + bytes) list" where
  "container_chunks algorithms_byte nonce kem_ciphertext gcm_tag signature aes_ciphertext =
     [Inr PQC_FILE_MAGIC,
      pack_B algorithms_byte,
      pack_I (length kem_ciphertext),
      pack_I (length gcm_tag),
      pack_I (if truthy signature then length (the signature) else 0),
      Inr nonce,
      Inr kem_ciphertext,
      Inr gcm_tag,
      Inr (if truthy signature then the signature else []),
      Inr aes_ciphertext]"

definition encrypt_file_hybrid ::
  "env \<Rightarrow> world \<Rightarrow> path \<Rightarrow> path \<Rightarrow> path option \<Rightarrow> (error + path) \<times> world" where
  "encrypt_file_hybrid E w filepath recipient_public_kem_key_path signer_private_dss_key_path =
     (case files w filepath of
        None \<Rightarrow> (Inl FileNotFoundError, w)
      | Some plaintext \<Rightarrow>
     (case files w recipient_public_kem_key_path of
        None \<Rightarrow> (Inl OSError, w)
      | Some recipient_public_kem_key \<Rightarrow>
     (let w1 = log_event (EvEncaps recipient_public_kem_key) w in
      case encapsulate_key E recipient_public_kem_key of
        Inl e \<Rightarrow> (Inl e, w1)
      | Inr (kem_ciphertext, aes_key) \<Rightarrow>
     (let nonce = os_urandom E 12 in
      if \<not> aesgcm_new E aes_key then (Inl LibraryException, w1) else
      let w2 = log_event (EvAeadEncrypt aes_key nonce plaintext) w1 in
      case aesgcm_encrypt E aes_key nonce plaintext of
        Raised \<Rightarrow> (Inl LibraryException, w2)
      | Returned ciphertext \<Rightarrow>
     (let aes_ciphertext = take (length ciphertext - 16) ciphertext;
          gcm_tag = drop (length ciphertext - 16) ciphertext;
          algorithms_byte = ALGORITHM_KEM_MLKEM768 OR ALGORITHM_SYM_AES256GCM
      in case signing_phase E w2 signer_private_dss_key_path algorithms_byte nonce
                kem_ciphertext gcm_tag aes_ciphertext of
           (Inl e, w3) \<Rightarrow> (Inl e, w3)
         | (Inr (algorithms_byte', signature), w3) \<Rightarrow>
             (let output_path = path_with_suffix E filepath (path_suffix E filepath @ ''.pqc'')
              in case write_all (container_chunks algorithms_byte' nonce kem_ciphertext gcm_tag
                                   signature aes_ciphertext) [] of
                   (Some e, written) \<Rightarrow> (Inl e, write_file output_path written w3)
                 | (None, written) \<Rightarrow> (Inr output_path, write_file output_path written w3)))))))"

section \<open>A small environment for concrete runs\<close>

text \<open>
  To run the operations on concrete inputs the fields of the environment need values.
  \<open>demo_env lib ss v\<close> has the library \<open>lib\<close> installed; its KEM always encapsulates
  to the ciphertext \<open>[0xC7]\<close> with the shared secret \<open>ss\<close>, its signatures are the byte
  \<open>0x53\<close>, its \<^verbatim>\<open>verify\<close> has the outcome \<open>v\<close>, its AEAD appends a constant
  16-byte tag, and its paths are file names of one directory.
\<close>

definition demo_tag :: bytes where
  "demo_tag = replicate 16 0xA5"

definition demo_suffix :: "path \<Rightarrow> string" where
  "demo_suffix p =
     (if CHR ''.'' \<in> set p then CHR ''.'' # rev (takeWhile (\<lambda>ch. ch \<noteq> CHR ''.'') (rev p)) else [])"

definition demo_stem :: "path \<Rightarrow> string" where
  "demo_stem p =
     (if CHR ''.'' \<in> set p then rev (drop 1 (dropWhile (\<lambda>ch. ch \<noteq> CHR ''.'') (rev p))) else p)"

definition demo_env :: "lib_type \<Rightarrow> bytes \<Rightarrow> bool outcome \<Rightarrow> env" where
  "demo_env lib ss v =
     \<lparr>pqc_library = Some lib,
      kem_encaps = (\<lambda>pk. Returned ([0xC7], ss)),
      kem_decaps = (\<lambda>sk ct. if ct = [0xC7] then Returned ss else Raised),
      dss_sign = (\<lambda>sk msg. Returned [0x53]),
      dss_verify = (\<lambda>pk msg sg. v),
      hkdf_derive = (\<lambda>n salt info ikm. replicate n 0x5C),
      aesgcm_new = (\<lambda>key. length key = 32),
      aesgcm_encrypt = (\<lambda>key nonce pt. Returned (pt @ demo_tag)),
      aesgcm_decrypt = (\<lambda>key nonce ct.
         if 16 \<le> length ct \<and> drop (length ct - 16) ct = demo_tag
         then Returned (take (length ct - 16) ct) else Raised),
      entropy = (\<lambda>i. of_nat i),
      path_suffix = demo_suffix,
      path_stem = demo_stem,
      path_with_suffix = (\<lambda>p sfx. demo_stem p @ sfx),
      path_parent_join = (\<lambda>p name. name)\<rparr>"

definition demo_world :: "(path \<times> bytes) list \<Rightarrow> world" where
  "demo_world fs = \<lparr>files = map_of fs, trace = []\<rparr>"

text \<open>
  The concrete run used below: the library is \<^verbatim>\<open>quantcrypt\<close>, the shared secret is
  32 bytes \<open>0x11\<close>, the plaintext \<open>a.txt\<close> holds the bytes 1, 2, 3. \<open>demo_unsigned\<close> is
  the container the encryptor writes for it without a signer and \<open>demo_signed\<close> the one
  it writes with the signer key \<open>dsk\<close>: magic, algorithm byte, the three lengths, the
  nonce, the KEM ciphertext, the tag, the signature (if any) and the ciphertext.
\<close>

definition demo_E :: "bool outcome \<Rightarrow> env" where
  "demo_E v = demo_env quantcrypt (replicate 32 0x11) v"

definition demo_files :: world where
  "demo_files =
     demo_world [(''a.txt'', [1, 2, 3]), (''pk'', [9]), (''sk'', [8]), (''dsk'', [7]), (''dpk'', [6])]"

definition demo_key :: bytes where
  "demo_key = replicate 32 0x11"

definition demo_nonce :: bytes where
  "demo_nonce = [0, 1, 2, 3, 4, 5, 6, 7, 8, 9, 10, 11]"

definition demo_unsigned :: bytes where
  "demo_unsigned =
     [0x50, 0x51, 0x43, 0x31, 3, 0, 0, 0, 1, 0, 0, 0, 16, 0, 0, 0, 0,
      0, 1, 2, 3, 4, 5, 6, 7, 8, 9, 10, 11,
      0xC7,
      0xA5, 0xA5, 0xA5, 0xA5, 0xA5, 0xA5, 0xA5, 0xA5, 0xA5, 0xA5, 0xA5, 0xA5, 0xA5, 0xA5, 0xA5, 0xA5,
      1, 2, 3]"

definition demo_signed :: bytes where
  "demo_signed =
     [0x50, 0x51, 0x43, 0x31, 3, 0, 0, 0, 1, 0, 0, 0, 16, 0, 0, 0, 1,
      0, 1, 2, 3, 4, 5, 6, 7, 8, 9, 10, 11,
      0xC7,
      0xA5, 0xA5, 0xA5, 0xA5, 0xA5, 0xA5, 0xA5, 0xA5, 0xA5, 0xA5, 0xA5, 0xA5, 0xA5, 0xA5, 0xA5, 0xA5,
      0x53,
      1, 2, 3]"

definition demo_payload :: bytes where
  "demo_payload =
     [3, 0, 0, 0, 1, 0, 0, 0, 16,
      0, 1, 2, 3, 4, 5, 6, 7, 8, 9, 10, 11,
      0xC7,
      0xA5, 0xA5, 0xA5, 0xA5, 0xA5, 0xA5, 0xA5, 0xA5, 0xA5, 0xA5, 0xA5, 0xA5, 0xA5, 0xA5, 0xA5, 0xA5,
      1, 2, 3]"

text \<open>The world in which a container is to be decrypted: the container and the keys.\<close>

definition demo_store :: "bytes \<Rightarrow> world" where
  "demo_store c =
     demo_world [(''a.txt.pqc'', c), (''sk'', [8]), (''dpk'', [6])]"

section \<open>What the specification says about the signature policy and the order of work\<close>





section \<open>Auxiliary facts\<close>

lemma unpack_B_pack: "n < 256 \<Longrightarrow> unpack_B [of_nat n] = Inr n"
  by (simp add: unpack_B_def unat_of_nat)

lemma unat_byte_of_nat: "unat (of_nat n :: byte) = n mod 256"
  by (simp add: unat_of_nat)

lemma be32_value:
  assumes "n < 2 ^ 32"
  shows "(n div 2 ^ 24) mod 256 * 2 ^ 24 + (n div 2 ^ 16) mod 256 * 2 ^ 16
           + (n div 2 ^ 8) mod 256 * 2 ^ 8 + n mod 256 = (n::nat)"
proof -
  have a: "n mod 2 ^ 32 = 2 ^ 24 * (n div 2 ^ 24 mod 2 ^ 8) + n mod 2 ^ 24"
    using mod_mult2_eq [of n "2 ^ 24" "2 ^ 8"] by simp
  have b: "n mod 2 ^ 24 = 2 ^ 16 * (n div 2 ^ 16 mod 2 ^ 8) + n mod 2 ^ 16"
    using mod_mult2_eq [of n "2 ^ 16" "2 ^ 8"] by simp
  have c: "n mod 2 ^ 16 = 2 ^ 8 * (n div 2 ^ 8 mod 2 ^ 8) + n mod 2 ^ 8"
    using mod_mult2_eq [of n "2 ^ 8" "2 ^ 8"] by simp
  have "n mod 2 ^ 32 = n" using assms by simp
  with a b c show ?thesis by simp
qed

lemma unpack_I_be32: "n < 2 ^ 32 \<Longrightarrow> unpack_I (be32 n) = Inr n"
  using be32_value [of n] by (simp add: unpack_I_def be32_def unat_byte_of_nat)

lemma length_be32: "length (be32 n) = 4"
  by (simp add: be32_def)

lemma length_magic: "length PQC_FILE_MAGIC = 4"
  by (simp add: PQC_FILE_MAGIC_def)

lemma read_n_append: "length a = n \<Longrightarrow> read_n n (a @ r) = (a, r)"
  by (simp add: read_n_def)

lemma unpack_B_Inr_iff: "(\<exists>n. unpack_B bs = Inr n) \<longleftrightarrow> length bs = 1"
  by (auto simp: unpack_B_def split: list.splits)

lemma unpack_B_Inl_iff: "unpack_B bs = Inl e \<longleftrightarrow> e = StructError \<and> length bs \<noteq> 1"
  by (auto simp: unpack_B_def split: list.splits)

lemma unpack_I_Inl_iff: "unpack_I bs = Inl e \<longleftrightarrow> e = StructError \<and> length bs \<noteq> 4"
  by (auto simp: unpack_I_def split: list.splits)



lemma parse_container_written:
  assumes "f < 256" "length kc < 2 ^ 32" "length tg < 2 ^ 32" "length sg < 2 ^ 32"
    and "length nonce = 12"
  shows "parse_container (PQC_FILE_MAGIC @ [of_nat f] @ be32 (length kc) @ be32 (length tg)
            @ be32 (length sg) @ nonce @ kc @ tg @ sg @ aes)
         = Inr \<lparr>c_algorithms_byte = f, c_kem_ct_len = length kc, c_gcm_tag_len = length tg,
                 c_sig_len = length sg, c_nonce = nonce, c_kem_ciphertext = kc, c_gcm_tag = tg,
                 c_signature = (if sg = [] then None else Some sg), c_aes_ciphertext = aes\<rparr>"
proof -
  have b1: "read_n (Suc 0) (of_nat f # r) = ([of_nat f], r)" for r :: bytes
    by (simp add: read_n_def)
  show ?thesis
    using assms
    by (simp add: parse_container_def read_n_append length_magic length_be32 b1
        unpack_B_pack unpack_I_be32)
qed




lemma unpack_I_Inr_length: "unpack_I bs = Inr n \<Longrightarrow> length bs = 4"
  by (auto simp: unpack_I_def split: list.splits)

lemma parse_container_Inl_iff:
  "parse_container data = Inl e \<longleftrightarrow>
     (e = BadMagic \<and> take 4 data \<noteq> PQC_FILE_MAGIC)
   \<or> (e = StructError \<and> take 4 data = PQC_FILE_MAGIC \<and> length data < 17)"
proof (cases "take 4 data = PQC_FILE_MAGIC")
  case False
  then show ?thesis by (auto simp: parse_container_def read_n_def)
next
  case True
  then have "length (take 4 data) = 4" by (simp add: length_magic)
  then have len: "4 \<le> length data" by simp
  show ?thesis
    using True len
    by (auto simp: parse_container_def read_n_def Let_def unpack_B_Inl_iff unpack_I_Inl_iff
        split: sum.splits dest: unpack_I_Inr_length)
qed

lemma parse_container_flags_byte:
  assumes "4 < length data"
  shows "parse_container (data[4 := b]) =
           (case parse_container data of
              Inl e \<Rightarrow> Inl e
            | Inr c \<Rightarrow> Inr (c\<lparr>c_algorithms_byte := unat b\<rparr>))"
proof -
  have t: "take 4 (data[4 := b]) = take 4 data" by simp
  have d: "drop 5 (data[4 := b]) = drop 5 data" by simp
  have h: "take (Suc 0) (drop 4 (data[4 := b])) = [b]"
    using assms by (simp add: take_Suc_conv_app_nth drop_update_swap)
  obtain x where hx: "take (Suc 0) (drop 4 data) = [x]"
    using assms by (simp add: take_Suc_conv_app_nth)
  have dd: "drop (Suc 0) (drop 4 xs) = drop 5 xs" for xs :: bytes by simp
  show ?thesis
    unfolding parse_container_def read_n_def
    by (simp add: Let_def t h hx dd d unpack_B_def split: sum.splits del: drop_drop)
qed



lemma parse_container_unfold:
  "parse_container data =
     (if take 4 data \<noteq> PQC_FILE_MAGIC then Inl BadMagic else
      case unpack_B (take (Suc 0) (drop 4 data)) of Inl e \<Rightarrow> Inl e | Inr ab \<Rightarrow>
      case unpack_I (take 4 (drop 5 data)) of Inl e \<Rightarrow> Inl e | Inr kl \<Rightarrow>
      case unpack_I (take 4 (drop 9 data)) of Inl e \<Rightarrow> Inl e | Inr gl \<Rightarrow>
      case unpack_I (take 4 (drop 13 data)) of Inl e \<Rightarrow> Inl e | Inr sl \<Rightarrow>
      Inr \<lparr>c_algorithms_byte = ab, c_kem_ct_len = kl, c_gcm_tag_len = gl, c_sig_len = sl,
            c_nonce = take 12 (drop 17 data),
            c_kem_ciphertext = take kl (drop 29 data),
            c_gcm_tag = take gl (drop (29 + kl) data),
            c_signature = (if sl > 0 then Some (take sl (drop (29 + kl + gl) data)) else None),
            c_aes_ciphertext = drop (29 + kl + gl + sl) data\<rparr>)"
  by (simp add: parse_container_def read_n_def Let_def add.commute add.left_commute
      split: sum.splits)


lemma write_all_container_chunks:
  assumes "write_all (container_chunks ab nonce kc tg sg aes) [] = (None, data)"
  shows "ab < 256 \<and> length kc < 2 ^ 32 \<and> length tg < 2 ^ 32
         \<and> length (if truthy sg then the sg else []) < 2 ^ 32
         \<and> data = PQC_FILE_MAGIC @ [of_nat ab] @ be32 (length kc) @ be32 (length tg)
              @ be32 (length (if truthy sg then the sg else [])) @ nonce @ kc @ tg
              @ (if truthy sg then the sg else []) @ aes"
  using assms
  by (auto simp: container_chunks_def pack_B_def pack_I_def split: if_splits)

lemma signing_phase_Inr:
  assumes "signing_phase E w sp ab nonce kc tg aes = (Inr (ab', sg), w3)"
  shows "files w3 = files w \<and>
         (if truthy sp
          then ab' = ab OR ALGORITHM_DSS_MLDSA87 \<and>
               (\<exists>ssk payload s. files w (the sp) = Some ssk
                  \<and> signature_payload ab' (length kc) (length tg) nonce kc tg aes = Inr payload
                  \<and> sign_data E ssk payload = Inr s \<and> sg = Some s
                  \<and> w3 = log_event (EvSign ssk payload) w)
          else ab' = ab \<and> sg = None \<and> w3 = w)"
  using assms
  by (auto simp: signing_phase_def Let_def log_event_def
      split: if_splits option.splits sum.splits)

lemma encrypt_file_hybrid_Inr:
  assumes "encrypt_file_hybrid E w fp kp sp = (Inr out, w')"
  shows "\<exists>plaintext pk kct key ct ab sg w3 data.
           files w fp = Some plaintext \<and> files w kp = Some pk
         \<and> encapsulate_key E pk = Inr (kct, key) \<and> aesgcm_new E key
         \<and> aesgcm_encrypt E key (os_urandom E 12) plaintext = Returned ct
         \<and> signing_phase E
               (log_event (EvAeadEncrypt key (os_urandom E 12) plaintext)
                  (log_event (EvEncaps pk) w))
               sp (ALGORITHM_KEM_MLKEM768 OR ALGORITHM_SYM_AES256GCM) (os_urandom E 12) kct
               (drop (length ct - 16) ct) (take (length ct - 16) ct) = (Inr (ab, sg), w3)
         \<and> write_all (container_chunks ab (os_urandom E 12) kct (drop (length ct - 16) ct) sg
                         (take (length ct - 16) ct)) [] = (None, data)
         \<and> out = path_with_suffix E fp (path_suffix E fp @ ''.pqc'')
         \<and> w' = write_file out data w3"
  using assms unfolding encrypt_file_hybrid_def
  by (auto simp: Let_def split: option.splits sum.splits outcome.splits prod.splits if_splits)

lemma flags_or: "ALGORITHM_KEM_MLKEM768 OR ALGORITHM_SYM_AES256GCM = 3"
  "(3::nat) OR ALGORITHM_DSS_MLDSA87 = 3"
  by (simp_all add: ALGORITHM_KEM_MLKEM768_def ALGORITHM_SYM_AES256GCM_def ALGORITHM_DSS_MLDSA87_def)

lemma length_os_urandom: "length (os_urandom E n) = n"
  by (simp add: os_urandom_def)

subsection \<open>The state and the concrete run\<close>

lemma files_log_event [simp]: "files (log_event ev w) = files w"
  by (simp add: log_event_def)

lemma trace_log_event [simp]: "trace (log_event ev w) = trace w @ [ev]"
  by (simp add: log_event_def)

lemma files_write_file [simp]: "files (write_file p b w) = (files w)(p \<mapsto> b)"
  by (simp add: write_file_def)

lemma trace_write_file [simp]: "trace (write_file p b w) = trace w"
  by (simp add: write_file_def)

lemma demo_urandom: "os_urandom (demo_env lib ss v) 12 = demo_nonce"
  by (simp add: os_urandom_def demo_env_def demo_nonce_def upt_rec)

lemma demo_tag_bytes:
  "demo_tag =
     [0xA5, 0xA5, 0xA5, 0xA5, 0xA5, 0xA5, 0xA5, 0xA5, 0xA5, 0xA5, 0xA5, 0xA5, 0xA5, 0xA5, 0xA5, 0xA5]"
  by (simp add: demo_tag_def numeral_eq_Suc)

lemma demo_parse_unsigned:
  "parse_container demo_unsigned =
     Inr \<lparr>c_algorithms_byte = 3, c_kem_ct_len = 1, c_gcm_tag_len = 16, c_sig_len = 0,
           c_nonce = demo_nonce, c_kem_ciphertext = [0xC7], c_gcm_tag = demo_tag,
           c_signature = None, c_aes_ciphertext = [1, 2, 3]\<rparr>"
  by (simp add: parse_container_unfold demo_unsigned_def PQC_FILE_MAGIC_def unpack_B_def
      unpack_I_def demo_nonce_def demo_tag_bytes)

lemma demo_parse_signed:
  "parse_container demo_signed =
     Inr \<lparr>c_algorithms_byte = 3, c_kem_ct_len = 1, c_gcm_tag_len = 16, c_sig_len = 1,
           c_nonce = demo_nonce, c_kem_ciphertext = [0xC7], c_gcm_tag = demo_tag,
           c_signature = Some [0x53], c_aes_ciphertext = [1, 2, 3]\<rparr>"
  by (simp add: parse_container_unfold demo_signed_def PQC_FILE_MAGIC_def unpack_B_def
      unpack_I_def demo_nonce_def demo_tag_bytes)

lemmas demo_run_defs =
  demo_E_def demo_env_def demo_files_def demo_store_def demo_world_def demo_key_def
  encapsulate_key_def decapsulate_key_def sign_data_def verify_signature_def
  signing_phase_def signature_phase_def symmetric_phase_def
  signature_payload_def pack_BII12s_def pack_B_def pack_I_def be32_def pack_12s_def
  container_chunks_def truthy_def output_name_def rsplit1_dot_def demo_suffix_def demo_stem_def
  ALGORITHM_KEM_MLKEM768_def ALGORITHM_SYM_AES256GCM_def ALGORITHM_DSS_MLDSA87_def
  PQC_FILE_MAGIC_def os_urandom_def upt_rec demo_tag_bytes demo_nonce_def Let_def

lemma demo_encrypt_unsigned:
  "encrypt_file_hybrid (demo_E v) demo_files ''a.txt'' ''pk'' None =
     (Inr ''a.txt.pqc'',
      write_file ''a.txt.pqc'' demo_unsigned
        (log_event (EvAeadEncrypt demo_key demo_nonce [1, 2, 3])
          (log_event (EvEncaps [9]) demo_files)))"
  by (simp add: encrypt_file_hybrid_def demo_run_defs demo_unsigned_def)

lemma demo_encrypt_signed:
  "encrypt_file_hybrid (demo_E v) demo_files ''a.txt'' ''pk'' (Some ''dsk'') =
     (Inr ''a.txt.pqc'',
      write_file ''a.txt.pqc'' demo_signed
        (log_event (EvSign [7] demo_payload)
          (log_event (EvAeadEncrypt demo_key demo_nonce [1, 2, 3])
            (log_event (EvEncaps [9]) demo_files))))"
  by (simp add: encrypt_file_hybrid_def demo_run_defs demo_signed_def demo_payload_def)

lemma demo_decrypt_unsigned:
  "decrypt_file_hybrid (demo_E v) (demo_store demo_unsigned) ''a.txt.pqc'' ''sk'' None False True =
     (Inr (''a-decrypted.txt'',
           Some \<lparr>signature_present = False, signature_verified = None,
                  md_require_signature = False\<rparr>),
      write_file ''a-decrypted.txt'' [1, 2, 3]
        (log_event (EvAeadDecrypt demo_key demo_nonce ([1, 2, 3] @ demo_tag))
          (log_event (EvDecaps [8] [0xC7]) (demo_store demo_unsigned))))"
  by (simp add: decrypt_file_hybrid_def demo_parse_unsigned demo_run_defs)


lemma demo_decrypt_signed_no_key:
  "decrypt_file_hybrid (demo_E v) (demo_store demo_signed) ''a.txt.pqc'' ''sk'' None False True =
     (Inr (''a-decrypted.txt'',
           Some \<lparr>signature_present = True, signature_verified = Some False,
                  md_require_signature = False\<rparr>),
      write_file ''a-decrypted.txt'' [1, 2, 3]
        (log_event (EvAeadDecrypt demo_key demo_nonce ([1, 2, 3] @ demo_tag))
          (log_event (EvDecaps [8] [0xC7]) (demo_store demo_signed))))"
  by (simp add: decrypt_file_hybrid_def demo_parse_signed demo_run_defs)


lemma demo_decrypt_signed_verified:
  "decrypt_file_hybrid (demo_E (Returned True)) (demo_store demo_signed) ''a.txt.pqc'' ''sk''
       (Some ''dpk'') rq True =
     (Inr (''a-decrypted.txt'',
           Some \<lparr>signature_present = True, signature_verified = Some True,
                  md_require_signature = rq\<rparr>),
      write_file ''a-decrypted.txt'' [1, 2, 3]
        (log_event (EvAeadDecrypt demo_key demo_nonce ([1, 2, 3] @ demo_tag))
          (log_event (EvVerify [6] demo_payload [0x53])
            (log_event (EvDecaps [8] [0xC7]) (demo_store demo_signed)))))"
  by (simp add: decrypt_file_hybrid_def demo_parse_signed demo_run_defs demo_payload_def)

lemma demo_decrypt_signed_invalid:
  "decrypt_file_hybrid (demo_E (Returned False)) (demo_store demo_signed) ''a.txt.pqc'' ''sk''
       (Some ''dpk'') rq True =
     (Inl SignatureInvalid,
      log_event (EvVerify [6] demo_payload [0x53])
        (log_event (EvDecaps [8] [0xC7]) (demo_store demo_signed)))"
  by (simp add: decrypt_file_hybrid_def demo_parse_signed demo_run_defs demo_payload_def)

subsection \<open>The phases of decryption\<close>


lemma parse_container_signature:
  assumes "parse_container data = Inr c"
  shows "(c_signature c \<noteq> None) = (0 < c_sig_len c)
         \<and> unpack_I (take 4 (drop 13 data)) = Inr (c_sig_len c)"
  using assms
  by (auto simp: parse_container_unfold split: if_splits sum.splits)


lemma signature_phase_files:
  "signature_phase E w c sp rq = (r, w2) \<Longrightarrow> files w2 = files w"
  by (auto simp: signature_phase_def Let_def split: option.splits sum.splits if_splits)


lemma symmetric_phase_Inl:
  assumes "symmetric_phase E w ep c key sv rq rm = (Inl e, w2)"
  shows "files w2 = files w
       \<and> (trace w2 = trace w \<or> (\<exists>k n x. trace w2 = trace w @ [EvAeadDecrypt k n x]))"
  using assms
  by (auto simp: symmetric_phase_def Let_def split: if_splits outcome.splits)

lemma symmetric_phase_Inr:
  assumes "symmetric_phase E w ep c key sv rq rm = (Inr r, w2)"
  shows "\<exists>pt. aesgcm_new E key
         \<and> aesgcm_decrypt E key (c_nonce c) (c_aes_ciphertext c @ c_gcm_tag c) = Returned pt
         \<and> r = (path_parent_join E ep (output_name E ep),
                 if rm then Some \<lparr>signature_present = (c_signature c \<noteq> None),
                                   signature_verified = sv, md_require_signature = rq\<rparr>
                 else None)
         \<and> w2 = write_file (path_parent_join E ep (output_name E ep)) pt
                  (log_event (EvAeadDecrypt key (c_nonce c) (c_aes_ciphertext c @ c_gcm_tag c)) w)"
  using assms
  by (auto simp: symmetric_phase_def Let_def split: if_splits outcome.splits)

lemma decrypt_file_hybrid_cases:
  "decrypt_file_hybrid E w ep kp sp rq rm = (r, w') \<Longrightarrow>
     (files w ep = None \<and> r = Inl FileNotFoundError \<and> w' = w)
   \<or> (\<exists>data e. files w ep = Some data \<and> parse_container data = Inl e \<and> r = Inl e \<and> w' = w)
   \<or> (\<exists>data c. files w ep = Some data \<and> parse_container data = Inr c
         \<and> files w kp = None \<and> r = Inl OSError \<and> w' = w)
   \<or> (\<exists>data c sk e. files w ep = Some data \<and> parse_container data = Inr c
         \<and> files w kp = Some sk \<and> decapsulate_key E sk (c_kem_ciphertext c) = Inl e
         \<and> r = Inl e \<and> w' = log_event (EvDecaps sk (c_kem_ciphertext c)) w)
   \<or> (\<exists>data c sk key e. files w ep = Some data \<and> parse_container data = Inr c
         \<and> files w kp = Some sk \<and> decapsulate_key E sk (c_kem_ciphertext c) = Inr key
         \<and> signature_phase E (log_event (EvDecaps sk (c_kem_ciphertext c)) w) c sp rq = (Inl e, w')
         \<and> r = Inl e)
   \<or> (\<exists>data c sk key sv w2. files w ep = Some data \<and> parse_container data = Inr c
         \<and> files w kp = Some sk \<and> decapsulate_key E sk (c_kem_ciphertext c) = Inr key
         \<and> signature_phase E (log_event (EvDecaps sk (c_kem_ciphertext c)) w) c sp rq = (Inr sv, w2)
         \<and> symmetric_phase E w2 ep c key sv rq rm = (r, w'))"
  unfolding decrypt_file_hybrid_def
  by (auto simp: Let_def split: option.splits sum.splits prod.splits)







subsection \<open>What encryption writes\<close>

lemma encrypt_file_hybrid_output:
  assumes "encrypt_file_hybrid E w fp kp sp = (Inr out, w1)"
  shows "\<exists>plaintext pk kct key ct sg w3.
           files w fp = Some plaintext \<and> files w kp = Some pk
         \<and> encapsulate_key E pk = Inr (kct, key) \<and> aesgcm_new E key
         \<and> aesgcm_encrypt E key (os_urandom E 12) plaintext = Returned ct
         \<and> signing_phase E
               (log_event (EvAeadEncrypt key (os_urandom E 12) plaintext)
                  (log_event (EvEncaps pk) w))
               sp 3 (os_urandom E 12) kct
               (drop (length ct - 16) ct) (take (length ct - 16) ct) = (Inr (3, sg), w3)
         \<and> length kct < 2 ^ 32
         \<and> length (if truthy sg then the sg else []) < 2 ^ 32
         \<and> w1 = write_file out
                  (PQC_FILE_MAGIC @ [3] @ be32 (length kct)
                     @ be32 (length (drop (length ct - 16) ct))
                     @ be32 (length (if truthy sg then the sg else []))
                     @ os_urandom E 12 @ kct @ drop (length ct - 16) ct
                     @ (if truthy sg then the sg else []) @ take (length ct - 16) ct) w3"
proof -
  from encrypt_file_hybrid_Inr [OF assms] obtain plaintext pk kct key ct ab sg w3 data where
    h: "files w fp = Some plaintext" "files w kp = Some pk"
       "encapsulate_key E pk = Inr (kct, key)" "aesgcm_new E key"
       "aesgcm_encrypt E key (os_urandom E 12) plaintext = Returned ct"
    and sgn: "signing_phase E
               (log_event (EvAeadEncrypt key (os_urandom E 12) plaintext)
                  (log_event (EvEncaps pk) w))
               sp (ALGORITHM_KEM_MLKEM768 OR ALGORITHM_SYM_AES256GCM) (os_urandom E 12) kct
               (drop (length ct - 16) ct) (take (length ct - 16) ct) = (Inr (ab, sg), w3)"
    and wr: "write_all (container_chunks ab (os_urandom E 12) kct (drop (length ct - 16) ct) sg
                         (take (length ct - 16) ct)) [] = (None, data)"
    and w1: "w1 = write_file out data w3"
    by blast
  from signing_phase_Inr [OF sgn] have ab: "ab = 3"
    by (auto simp: flags_or split: if_splits)
  from write_all_container_chunks [OF wr] ab
  have d: "length kct < 2 ^ 32" "length (if truthy sg then the sg else []) < 2 ^ 32"
    "data = PQC_FILE_MAGIC @ [3] @ be32 (length kct)
                     @ be32 (length (drop (length ct - 16) ct))
                     @ be32 (length (if truthy sg then the sg else []))
                     @ os_urandom E 12 @ kct @ drop (length ct - 16) ct
                     @ (if truthy sg then the sg else []) @ take (length ct - 16) ct"
    by simp_all
  from h sgn ab d w1 show ?thesis
    by (simp add: flags_or)
qed

lemma encrypt_file_hybrid_flags:
  assumes "encrypt_file_hybrid E w fp kp sp = (Inr out, w1)"
  shows "\<exists>data. files w1 out = Some data \<and> take 5 data = PQC_FILE_MAGIC @ [3]
           \<and> 4 < length data \<and> data ! 4 = 3"
proof -
  from encrypt_file_hybrid_output [OF assms] obtain rest w3 where
    "w1 = write_file out (PQC_FILE_MAGIC @ [3] @ rest) w3"
    by blast
  then show ?thesis
    by (simp add: length_magic nth_append)
qed

lemma demo_signed_length: "4 < length demo_signed" "4 < length demo_unsigned"
  by (simp_all add: demo_signed_def demo_unsigned_def)

lemma decrypt_file_hybrid_metadata:
  assumes "decrypt_file_hybrid E w ep kp sp rq True = (Inr (outp, Some md), w2)"
  shows "\<exists>data c. files w ep = Some data \<and> parse_container data = Inr c
           \<and> signature_present md = (0 < c_sig_len c)"
proof -
  from decrypt_file_hybrid_cases [OF assms]
  obtain data c sk key sv w3 where
    f: "files w ep = Some data" and p: "parse_container data = Inr c"
    and s: "symmetric_phase E w3 ep c key sv rq True = (Inr (outp, Some md), w2)"
    by (elim disjE exE conjE) simp_all
  from symmetric_phase_Inr [OF s] have "signature_present md = (c_signature c \<noteq> None)"
    by auto
  with parse_container_signature [OF p] f p show ?thesis by auto
qed

section \<open>Session key derivation\<close>




section \<open>Verification of a rejected signature\<close>

text \<open>
  Claim C8 asks that \<^verbatim>\<open>_verify_signature\<close> answers \<^verbatim>\<open>False\<close>, without raising, for a
  well-formed signature that the scheme rejects. How a library reports the rejection is
  the library's convention: its \<^verbatim>\<open>verify\<close> returns \<^verbatim>\<open>False\<close>, or it raises. In the
  \<^verbatim>\<open>quantcrypt\<close> branch a \<^verbatim>\<open>verify\<close> that raises ends in the \<^verbatim>\<open>ValueError\<close> of the
  \<^verbatim>\<open>except\<close> clause; in the \<^verbatim>\<open>pqcrypto\<close> branch a \<^verbatim>\<open>verify\<close> that returns
  \<^verbatim>\<open>False\<close> ends in \<^verbatim>\<open>True\<close>, since the returned value is dropped. The theorem
  evaluates both runs.
\<close>

theorem verify_signature_rejected_signature:
  "verify_signature (demo_env quantcrypt (replicate 32 0x11) Raised) [6] [1, 2, 3] [0x53]
     = Inl PrimitiveFailure
   \<and> verify_signature (demo_env pqcrypto (replicate 32 0x11) (Returned False)) [6] [1, 2, 3] [0x53]
     = Inr True"
  by (simp add: verify_signature_def demo_env_def)

section \<open>Failures of decryption leave the files as they were\<close>

text \<open>
  Claim C9. Whatever makes \<^verbatim>\<open>decrypt_file_hybrid\<close> fail (a missing file, a structural
  decode error, a failure of the primitive library, the signature policy, an invalid
  signature, the AEAD tag), the file system after the failure is the file system before
  the call: the output file is opened only after \<^verbatim>\<open>aesgcm.decrypt\<close> has returned. A
  failed run returns the error alone, so no plaintext leaves it.
\<close>

theorem decrypt_failure_writes_nothing:
  assumes "decrypt_file_hybrid E w ep kp sp rq rm = (Inl e, w')"
  shows "files w' = files w"
proof -
  from decrypt_file_hybrid_cases [OF assms]
  consider
      (early) "w' = w"
    | (kem) sk ct where "w' = log_event (EvDecaps sk ct) w"
    | (policy) sk ct c x where
        "signature_phase E (log_event (EvDecaps sk ct) w) c sp rq = (x, w')"
    | (aead) sk ct c sv w2 key where
        "signature_phase E (log_event (EvDecaps sk ct) w) c sp rq = (Inr sv, w2)"
        "symmetric_phase E w2 ep c key sv rq rm = (Inl e, w')"
    by (elim disjE exE conjE) (simp; blast)+
  then show ?thesis
  proof cases
    case early
    then show ?thesis by simp
  next
    case kem
    then show ?thesis by simp
  next
    case policy
    from signature_phase_files [OF policy] show ?thesis by simp
  next
    case aead
    from signature_phase_files [OF aead(1)] symmetric_phase_Inl [OF aead(2)]
    show ?thesis by simp
  qed
qed

theorem decrypt_failure_writes_nothing_witness:
  "decrypt_file_hybrid (demo_E (Returned False)) (demo_store demo_signed) ''a.txt.pqc'' ''sk''
       (Some ''dpk'') False True =
     (Inl SignatureInvalid,
      log_event (EvVerify [6] demo_payload [0x53])
        (log_event (EvDecaps [8] [0xC7]) (demo_store demo_signed)))
   \<and> files (log_event (EvVerify [6] demo_payload [0x53])
        (log_event (EvDecaps [8] [0xC7]) (demo_store demo_signed)))
       = files (demo_store demo_signed)"
proof -
  note run = demo_decrypt_signed_invalid [of False]
  have "files (log_event (EvVerify [6] demo_payload [0x53])
        (log_event (EvDecaps [8] [0xC7]) (demo_store demo_signed)))
       = files (demo_store demo_signed)"
    by (rule decrypt_failure_writes_nothing [OF run])
  with run show ?thesis by simp
qed

section \<open>The order of work during decryption\<close>




section \<open>The signature policy\<close>



section \<open>Structural decode errors\<close>

text \<open>
  Claim C6, as amended. The decoder of \<^verbatim>\<open>decrypt_file_hybrid\<close> fails in two ways only:
  with the bad-magic \<^verbatim>\<open>ValueError\<close> when the first four bytes are not \<^verbatim>\<open>PQC1\<close> (so
  for every input shorter than four bytes), and with \<^verbatim>\<open>struct.error\<close> when the magic
  is right and the input is shorter than 17 bytes, so that one of the four header fields
  is incomplete. Every other input decodes: the 29-byte minimum, the sum of the three
  lengths against the bytes that remain, \<^verbatim>\<open>tag_len = 16\<close> and the agreement of
  \<^verbatim>\<open>sig_len\<close> with the DSS bit are not checked, and short reads are taken as they come.
\<close>

theorem decode_fails_only_on_magic_or_short_header:
  "(parse_container data = Inl e \<longleftrightarrow>
      (e = BadMagic \<and> take 4 data \<noteq> PQC_FILE_MAGIC)
    \<or> (e = StructError \<and> take 4 data = PQC_FILE_MAGIC \<and> length data < 17))
   \<and> ((\<exists>c. parse_container data = Inr c) \<longleftrightarrow>
        (take 4 data = PQC_FILE_MAGIC \<and> 17 \<le> length data))"
proof -
  have a: "parse_container data = Inl x \<longleftrightarrow>
      (x = BadMagic \<and> take 4 data \<noteq> PQC_FILE_MAGIC)
    \<or> (x = StructError \<and> take 4 data = PQC_FILE_MAGIC \<and> length data < 17)" for x
    by (rule parse_container_Inl_iff)
  have b: "(\<exists>c. parse_container data = Inr c) \<longleftrightarrow> (\<forall>x. parse_container data \<noteq> Inl x)"
    by (cases "parse_container data") simp_all
  have c: "(\<forall>x. parse_container data \<noteq> Inl x) \<longleftrightarrow>
      (take 4 data = PQC_FILE_MAGIC \<and> 17 \<le> length data)" (is "?L \<longleftrightarrow> ?R")
  proof
    assume l: ?L
    from l [rule_format, of BadMagic] have m: "take 4 data = PQC_FILE_MAGIC"
      by (simp add: a)
    from l [rule_format, of StructError] m have "\<not> length data < 17"
      by (simp add: a)
    with m show ?R by simp
  next
    assume ?R
    then show ?L by (simp add: a)
  qed
  from a [of e] b c show ?thesis by simp
qed

theorem decode_fails_only_on_magic_or_short_header_witness:
  "parse_container [0x58, 0x58, 0x58, 0x31] = Inl BadMagic
   \<and> \<not> (\<exists>c. parse_container [0x58, 0x58, 0x58, 0x31] = Inr c)"
  using decode_fails_only_on_magic_or_short_header [of "[0x58, 0x58, 0x58, 0x31]" BadMagic]
  by (simp add: PQC_FILE_MAGIC_def)

text \<open>
  Claim C6 as stated fails: this input of 17 bytes (magic, algorithm byte 3, lengths 0, 5
  and 0, no nonce) is shorter than 29 bytes, declares a tag of 5 bytes where none
  remains, and has the DSS bit set with \<^verbatim>\<open>sig_len = 0\<close>; the decoder returns fields
  for it.
\<close>

theorem decode_accepts_malformed_header_counterexample:
  "parse_container [0x50, 0x51, 0x43, 0x31, 3, 0, 0, 0, 0, 0, 0, 0, 5, 0, 0, 0, 0]
     = Inr \<lparr>c_algorithms_byte = 3, c_kem_ct_len = 0, c_gcm_tag_len = 5, c_sig_len = 0,
             c_nonce = [], c_kem_ciphertext = [], c_gcm_tag = [], c_signature = None,
             c_aes_ciphertext = []\<rparr>"
  by (simp add: parse_container_unfold PQC_FILE_MAGIC_def unpack_B_def unpack_I_def)

section \<open>The algorithm byte\<close>

text \<open>
  Claim C10. With the constants of the source, \<^verbatim>\<open>KEM | SYM\<close> is 3 and setting the DSS
  constant leaves 3. Every container that \<^verbatim>\<open>encrypt_file_hybrid\<close> writes, signed or
  not, starts with the magic and the byte 3. On decode a signature is present exactly
  when the \<^verbatim>\<open>sig_len\<close> read from bytes 13 to 16 is positive; replacing the algorithm
  byte by any other byte changes nothing of the decoded fields but that byte; and the
  \<open>signature_present\<close> that a successful decryption reports is \<^verbatim>\<open>sig_len > 0\<close>.
\<close>

theorem flags_byte_constant_presence_from_sig_len:
  "ALGORITHM_KEM_MLKEM768 OR ALGORITHM_SYM_AES256GCM = 3
   \<and> (ALGORITHM_KEM_MLKEM768 OR ALGORITHM_SYM_AES256GCM) OR ALGORITHM_DSS_MLDSA87 = 3
   \<and> (encrypt_file_hybrid E w fp kp sp = (Inr out, w1) \<longrightarrow>
        (\<exists>data. files w1 out = Some data \<and> take 5 data = PQC_FILE_MAGIC @ [3]))
   \<and> (parse_container data = Inr c \<longrightarrow>
        (c_signature c \<noteq> None) = (0 < c_sig_len c)
        \<and> unpack_I (take 4 (drop 13 data)) = Inr (c_sig_len c))
   \<and> (4 < length data \<longrightarrow>
        parse_container (data[4 := b]) =
          (case parse_container data of
             Inl e \<Rightarrow> Inl e
           | Inr c \<Rightarrow> Inr (c\<lparr>c_algorithms_byte := unat b\<rparr>)))
   \<and> (decrypt_file_hybrid E' w' ep kp' sp' rq True = (Inr (outp, Some md), w2) \<longrightarrow>
        (\<exists>data' c'. files w' ep = Some data' \<and> parse_container data' = Inr c'
            \<and> signature_present md = (0 < c_sig_len c')))"
proof -
  have "encrypt_file_hybrid E w fp kp sp = (Inr out, w1) \<Longrightarrow>
        \<exists>data. files w1 out = Some data \<and> take 5 data = PQC_FILE_MAGIC @ [3]"
    using encrypt_file_hybrid_flags by blast
  then show ?thesis
    using parse_container_signature [of data c] parse_container_flags_byte [of data b]
      decrypt_file_hybrid_metadata [of E' w' ep kp' sp' rq outp md w2]
    by (simp add: flags_or)
qed

theorem flags_byte_constant_presence_from_sig_len_witness:
  "encrypt_file_hybrid (demo_E (Returned True)) demo_files ''a.txt'' ''pk'' (Some ''dsk'') =
     (Inr ''a.txt.pqc'',
      write_file ''a.txt.pqc'' demo_signed
        (log_event (EvSign [7] demo_payload)
          (log_event (EvAeadEncrypt demo_key demo_nonce [1, 2, 3])
            (log_event (EvEncaps [9]) demo_files))))
   \<and> (\<exists>data. files (write_file ''a.txt.pqc'' demo_signed
        (log_event (EvSign [7] demo_payload)
          (log_event (EvAeadEncrypt demo_key demo_nonce [1, 2, 3])
            (log_event (EvEncaps [9]) demo_files)))) ''a.txt.pqc'' = Some data
         \<and> take 5 data = PQC_FILE_MAGIC @ [3])
   \<and> 4 < length demo_signed
   \<and> parse_container (demo_signed[4 := 0xFF]) =
       Inr \<lparr>c_algorithms_byte = 255, c_kem_ct_len = 1, c_gcm_tag_len = 16, c_sig_len = 1,
             c_nonce = demo_nonce, c_kem_ciphertext = [0xC7], c_gcm_tag = demo_tag,
             c_signature = Some [0x53], c_aes_ciphertext = [1, 2, 3]\<rparr>
   \<and> (\<exists>data' c'. files (demo_store demo_signed) ''a.txt.pqc'' = Some data'
         \<and> parse_container data' = Inr c' \<and> 0 < c_sig_len c')"
proof -
  note t = flags_byte_constant_presence_from_sig_len
    [where E = "demo_E (Returned True)" and w = demo_files and fp = "''a.txt''"
       and kp = "''pk''" and sp = "Some ''dsk''" and out = "''a.txt.pqc''"
       and ?w1.0 = "write_file ''a.txt.pqc'' demo_signed
        (log_event (EvSign [7] demo_payload)
          (log_event (EvAeadEncrypt demo_key demo_nonce [1, 2, 3])
            (log_event (EvEncaps [9]) demo_files)))"
       and data = demo_signed and b = "0xFF"
       and E' = "demo_E (Returned True)" and w' = "demo_store demo_signed"
       and ep = "''a.txt.pqc''" and kp' = "''sk''" and sp' = "Some ''dpk''" and rq = False
       and outp = "''a-decrypted.txt''"
       and md = "\<lparr>signature_present = True, signature_verified = Some True,
                  md_require_signature = False\<rparr>"
       and ?w2.0 = "write_file ''a-decrypted.txt'' [1, 2, 3]
        (log_event (EvAeadDecrypt demo_key demo_nonce ([1, 2, 3] @ demo_tag))
          (log_event (EvVerify [6] demo_payload [0x53])
            (log_event (EvDecaps [8] [0xC7]) (demo_store demo_signed))))"]
  show ?thesis
    using t demo_signed_length
    by (simp add: demo_encrypt_signed demo_parse_signed demo_decrypt_signed_verified)
qed

text \<open>
  Claim C3, as amended. On encrypt the emitted algorithm byte has bit 0 (\<open>0x01\<close>, KEM)
  set and every bit other than bits 0, 1 and 2 clear. On decode the algorithm byte is
  not validated: whether decoding fails, and with which error, does not depend on it,
  so no value of the byte is rejected.
\<close>

theorem flags_emitted_and_never_checked:
  "(encrypt_file_hybrid E w fp kp sp = (Inr out, w1) \<longrightarrow>
      (\<exists>data. files w1 out = Some data \<and> 4 < length data
          \<and> data ! 4 AND 0x01 = 0x01 \<and> data ! 4 AND 0xF8 = 0))
   \<and> (4 < length data \<longrightarrow>
        (parse_container (data[4 := b]) = Inl e \<longleftrightarrow> parse_container data = Inl e))"
proof -
  have a: "encrypt_file_hybrid E w fp kp sp = (Inr out, w1) \<Longrightarrow>
      \<exists>data. files w1 out = Some data \<and> 4 < length data
          \<and> data ! 4 AND 0x01 = 0x01 \<and> data ! 4 AND 0xF8 = 0"
  proof -
    assume "encrypt_file_hybrid E w fp kp sp = (Inr out, w1)"
    from encrypt_file_hybrid_flags [OF this] obtain d where
      "files w1 out = Some d" "4 < length d" "d ! 4 = 3" by blast
    then show ?thesis by simp
  qed
  have b: "4 < length data \<Longrightarrow>
      (parse_container (data[4 := b]) = Inl e \<longleftrightarrow> parse_container data = Inl e)"
    using parse_container_flags_byte [of data b]
    by (cases "parse_container data") simp_all
  from a b show ?thesis by blast
qed

theorem flags_emitted_and_never_checked_witness:
  "encrypt_file_hybrid (demo_E (Returned True)) demo_files ''a.txt'' ''pk'' None =
     (Inr ''a.txt.pqc'',
      write_file ''a.txt.pqc'' demo_unsigned
        (log_event (EvAeadEncrypt demo_key demo_nonce [1, 2, 3])
          (log_event (EvEncaps [9]) demo_files)))
   \<and> (\<exists>data. files (write_file ''a.txt.pqc'' demo_unsigned
        (log_event (EvAeadEncrypt demo_key demo_nonce [1, 2, 3])
          (log_event (EvEncaps [9]) demo_files))) ''a.txt.pqc'' = Some data
         \<and> 4 < length data \<and> data ! 4 AND 0x01 = 0x01 \<and> data ! 4 AND 0xF8 = 0)
   \<and> 4 < length demo_unsigned
   \<and> parse_container (demo_unsigned[4 := 0xFF]) \<noteq> Inl StructError"
proof -
  note t = flags_emitted_and_never_checked
    [where E = "demo_E (Returned True)" and w = demo_files and fp = "''a.txt''"
       and kp = "''pk''" and sp = None and out = "''a.txt.pqc''"
       and ?w1.0 = "write_file ''a.txt.pqc'' demo_unsigned
        (log_event (EvAeadEncrypt demo_key demo_nonce [1, 2, 3])
          (log_event (EvEncaps [9]) demo_files))"
       and data = demo_unsigned and b = "0xFF" and e = StructError]
  show ?thesis
    using t demo_signed_length
    by (simp add: demo_encrypt_unsigned demo_parse_unsigned)
qed

text \<open>
  Claim C3 as stated fails. The container written without a signer carries the byte 3:
  bit 2 (\<open>0x04\<close>) is clear and bit 1 (\<open>0x02\<close>) is set though there is no signature.
  The same container with the algorithm byte replaced by \<open>0xFF\<close> decodes.
\<close>

theorem flags_byte_counterexample:
  "encrypt_file_hybrid (demo_E (Returned True)) demo_files ''a.txt'' ''pk'' None =
     (Inr ''a.txt.pqc'',
      write_file ''a.txt.pqc'' demo_unsigned
        (log_event (EvAeadEncrypt demo_key demo_nonce [1, 2, 3])
          (log_event (EvEncaps [9]) demo_files)))
   \<and> demo_unsigned ! 4 = 3
   \<and> (3 :: byte) AND 0x04 = 0
   \<and> (3 :: byte) AND 0x02 = 0x02
   \<and> parse_container (demo_unsigned[4 := 0xFF]) =
       Inr \<lparr>c_algorithms_byte = 255, c_kem_ct_len = 1, c_gcm_tag_len = 16, c_sig_len = 0,
             c_nonce = demo_nonce, c_kem_ciphertext = [0xC7], c_gcm_tag = demo_tag,
             c_signature = None, c_aes_ciphertext = [1, 2, 3]\<rparr>"
proof -
  have "demo_unsigned ! 4 = 3" by (simp add: demo_unsigned_def)
  moreover have "parse_container (demo_unsigned[4 := 0xFF]) =
       Inr \<lparr>c_algorithms_byte = 255, c_kem_ct_len = 1, c_gcm_tag_len = 16, c_sig_len = 0,
             c_nonce = demo_nonce, c_kem_ciphertext = [0xC7], c_gcm_tag = demo_tag,
             c_signature = None, c_aes_ciphertext = [1, 2, 3]\<rparr>"
    using demo_signed_length(2)
    by (simp add: parse_container_flags_byte demo_parse_unsigned)
  ultimately show ?thesis
    by (simp add: demo_encrypt_unsigned)
qed

end
